theory Spec2Isabelle
  imports Complex_Main "HOL-Library.Word"
begin

section \<open>The ray tracing acceleration structure pass\<close>

text \<open>
  A shallow embedding of \<^verbatim>\<open>RayTracingAccelerationStructurePass.cpp\<close>: the pass that
  declares the frame graph dependencies of the top-level acceleration structure (TLAS)
  and records the build and update commands of the bottom-level structures (BLAS).

  The pass owns two counters, \<^verbatim>\<open>m_rayTracingRevision\<close> and \<^verbatim>\<open>m_frameCount\<close>. Everything
  else is read through the getters of the ray tracing feature processor, which is a
  record here whose fields carry the getters' names. The command list is the list of
  commands a call records, oldest first.
\<close>

subsection \<open>Data\<close>

text \<open>
  A \<^verbatim>\<open>float\<close> as the values it can take. Only the comparison \<^verbatim>\<open><\<close> is used by the
  pass; it is false as soon as one side is not a number.
\<close>

datatype float = Finite real | PlusInfinity | MinusInfinity | NaN

fun float_less :: "float \<Rightarrow> float \<Rightarrow> bool" where
  "float_less NaN _ = False"
| "float_less _ NaN = False"
| "float_less (Finite x) (Finite y) = (x < y)"
| "float_less (Finite x) PlusInfinity = True"
| "float_less (Finite x) MinusInfinity = False"
| "float_less PlusInfinity _ = False"
| "float_less MinusInfinity MinusInfinity = False"
| "float_less MinusInfinity _ = True"

type_synonym Vector3 = "float \<times> float \<times> float"
type_synonym Quaternion = "float \<times> float \<times> float \<times> float"

record Transform =
  m_rotation :: Quaternion
  m_scale :: float
  m_translation :: Vector3

record Color =
  GetR :: float
  GetG :: float
  GetB :: float
  GetA :: float

text \<open>References to GPU objects are handles.\<close>

type_synonym BlasRef = nat
type_synonym BufferRef = nat

record Mesh =
  m_instanceMask :: "32 word"
  m_transform :: Transform
  m_nonUniformScale :: Vector3

record SubMesh =
  m_mesh :: Mesh
  m_blas :: BlasRef
  m_irradianceColor :: Color

text \<open>The hash of a guid is a \<^verbatim>\<open>size_t\<close>, 64 bits here, and is kept with the guid.\<close>

record Uuid =
  m_data :: "128 word"
  GetHash :: "64 word"

record AssetId =
  m_guid :: Uuid
  m_subId :: "32 word"

record SubMeshBlasInstance =
  m_blas :: BlasRef

record BlasInstance =
  m_subMeshes :: "SubMeshBlasInstance list"
  m_blasBuilt :: bool
  m_isSkinnedMesh :: bool

text \<open>
  The BLAS instance map, in its iteration order: the loop of \<^verbatim>\<open>BuildCommandList\<close> visits
  the entries first to last.
\<close>

type_synonym BlasInstanceMap = "(AssetId \<times> BlasInstance) list"

record TlasInstance =
  InstanceID :: "32 word"
  InstanceMask :: "32 word"
  HitGroupIndex :: "32 word"
  Blas :: BlasRef
  Transform :: Transform
  NonUniformScale :: Vector3
  Transparent :: bool

record RayTracingTlasDescriptor =
  GetInstances :: "TlasInstance list"

record Buffer =
  m_buffer :: BufferRef
  m_byteCount :: "64 word"

record RayTracingTlas =
  GetTlasBuffer :: "Buffer option"

type_synonym AttachmentId = string

text \<open>
  Modelled from the spec: the class of the feature processor is not among the sources.
  The spec lists what the pass consumes from it: the geometry revision, the ordered
  sub-mesh sequence and its count, the BLAS instance map, the count of skinned meshes,
  the TLAS and the attachment identifier of its buffer. Each is a field here, named after
  the getter the source calls. The revision and the counts are \<^verbatim>\<open>uint32_t\<close>, the type
  the source gives the sub-mesh count it reads.
\<close>

record RayTracingFeatureProcessor =
  GetRevision :: "32 word"
  GetSubMeshes :: "SubMesh list"
  GetSubMeshCount :: "32 word"
  GetBlasInstances :: BlasInstanceMap
  GetSkinnedMeshCount :: "32 word"
  GetTlas :: RayTracingTlas
  GetTlasAttachmentId :: AttachmentId

text \<open>
  Modelled from the spec: the header of the pass is not among the sources. The spec gives
  the pass two counters of its own, the last-processed revision and the frame counter.
  They are \<^verbatim>\<open>uint32_t\<close> here, so the increment of the frame counter wraps at \<open>2 ^ 32\<close>.
\<close>

record RayTracingAccelerationStructurePass =
  m_rayTracingRevision :: "32 word"
  m_frameCount :: "32 word"

datatype Command =
    BuildBottomLevelAccelerationStructure BlasRef
  | UpdateBottomLevelAccelerationStructure BlasRef
  | BuildTopLevelAccelerationStructure RayTracingTlas

subsection \<open>BuildCommandList\<close>

text \<open>
  The body of the loop over the sub-meshes of one BLAS instance, at index
  \<open>submeshIndex\<close>. The hash is a \<^verbatim>\<open>size_t\<close>, so the sum is taken in 64 bits: the index
  and the 32-bit frame count are widened, and the sum wraps. The interval
  \<^verbatim>\<open>SKINNED_BLAS_REBUILD_FRAME_INTERVAL\<close> is declared in the header of the pass; it is the
  parameter \<open>interval\<close>, already widened as the remainder widens it. It is a nonzero
  constant: the remainder by zero is undefined in C++.
\<close>

definition submeshCommand ::
  "64 word \<Rightarrow> bool \<Rightarrow> bool \<Rightarrow> 64 word \<Rightarrow> 32 word \<Rightarrow> nat \<Rightarrow> SubMeshBlasInstance \<Rightarrow> Command" where
  "submeshCommand interval blasBuilt isSkinnedMesh assetGuid frameCount submeshIndex submeshBlasInstance =
     (if blasBuilt = False then
        BuildBottomLevelAccelerationStructure (SubMeshBlasInstance.m_blas submeshBlasInstance)
      else if isSkinnedMesh \<and> (assetGuid + of_nat submeshIndex + ucast frameCount) mod interval \<noteq> 0 then
        UpdateBottomLevelAccelerationStructure (SubMeshBlasInstance.m_blas submeshBlasInstance)
      else
        BuildBottomLevelAccelerationStructure (SubMeshBlasInstance.m_blas submeshBlasInstance))"

text \<open>
  The loop over the sub-meshes, from index \<open>submeshIndex\<close> on. The built flag is read
  in the loop and written only after it, so it is the same for every sub-mesh.
\<close>

fun submeshLoop ::
  "64 word \<Rightarrow> bool \<Rightarrow> bool \<Rightarrow> 64 word \<Rightarrow> 32 word \<Rightarrow> nat \<Rightarrow> SubMeshBlasInstance list \<Rightarrow> Command list" where
  "submeshLoop interval blasBuilt isSkinnedMesh assetGuid frameCount submeshIndex [] = []"
| "submeshLoop interval blasBuilt isSkinnedMesh assetGuid frameCount submeshIndex (s # ss) =
     submeshCommand interval blasBuilt isSkinnedMesh assetGuid frameCount submeshIndex s
       # submeshLoop interval blasBuilt isSkinnedMesh assetGuid frameCount (Suc submeshIndex) ss"

text \<open>
  The body of the loop over the BLAS instances: the entry as the body leaves it, and
  the commands the body records.
\<close>

definition processBlasInstance ::
  "64 word \<Rightarrow> 32 word \<Rightarrow> AssetId \<times> BlasInstance \<Rightarrow> (AssetId \<times> BlasInstance) \<times> Command list" where
  "processBlasInstance interval frameCount blasInstance =
     (let isSkinnedMesh = m_isSkinnedMesh (snd blasInstance) in
      if m_blasBuilt (snd blasInstance) = False \<or> isSkinnedMesh then
        ((fst blasInstance, (snd blasInstance)\<lparr>m_blasBuilt := True\<rparr>),
         submeshLoop interval (m_blasBuilt (snd blasInstance)) isSkinnedMesh
           (GetHash (m_guid (fst blasInstance))) frameCount 0 (m_subMeshes (snd blasInstance)))
      else (blasInstance, []))"

fun blasInstanceLoop ::
  "64 word \<Rightarrow> 32 word \<Rightarrow> BlasInstanceMap \<Rightarrow> BlasInstanceMap \<times> Command list" where
  "blasInstanceLoop interval frameCount [] = ([], [])"
| "blasInstanceLoop interval frameCount (blasInstance # blasInstances) =
     (let (blasInstance', commands) = processBlasInstance interval frameCount blasInstance;
          (blasInstances', commands') = blasInstanceLoop interval frameCount blasInstances
      in (blasInstance' # blasInstances', commands @ commands'))"

text \<open>
  \<^verbatim>\<open>BuildCommandList\<close>: the pass and the feature processor as the call leaves them, and
  the commands it records. The scene may have no ray tracing feature processor.
\<close>

definition BuildCommandList ::
  "64 word \<Rightarrow> RayTracingAccelerationStructurePass \<Rightarrow> RayTracingFeatureProcessor option \<Rightarrow>
   RayTracingAccelerationStructurePass \<times> RayTracingFeatureProcessor option \<times> Command list" where
  "BuildCommandList interval pass rayTracingFeatureProcessor =
     (case rayTracingFeatureProcessor of
        None \<Rightarrow> (pass, None, [])
      | Some fp \<Rightarrow>
          if GetTlasBuffer (GetTlas fp) = None then (pass, Some fp, [])
          else if GetRevision fp = m_rayTracingRevision pass \<and> GetSkinnedMeshCount fp = 0 then
            (pass, Some fp, [])
          else
            let pass1 = pass\<lparr>m_rayTracingRevision := GetRevision fp\<rparr> in
            if GetSubMeshCount fp = 0 then (pass1, Some fp, [])
            else
              let (blasInstances, commands) =
                    blasInstanceLoop interval (m_frameCount pass1) (GetBlasInstances fp)
              in (pass1\<lparr>m_frameCount := m_frameCount pass1 + 1\<rparr>,
                  Some (fp\<lparr>GetBlasInstances := blasInstances\<rparr>),
                  commands @ [BuildTopLevelAccelerationStructure (GetTlas fp)]))"

subsection \<open>SetupFrameGraphDependencies\<close>

text \<open>
  The loop that fills the TLAS descriptor: one instance per sub-mesh, in the order of the
  sub-mesh vector. \<open>instanceIndex\<close> is a \<^verbatim>\<open>uint32_t\<close>, so the increment wraps.
\<close>

fun tlasInstanceLoop :: "32 word \<Rightarrow> SubMesh list \<Rightarrow> TlasInstance list" where
  "tlasInstanceLoop instanceIndex [] = []"
| "tlasInstanceLoop instanceIndex (subMesh # subMeshes) =
     \<lparr>InstanceID = instanceIndex,
      InstanceMask = m_instanceMask (m_mesh subMesh),
      HitGroupIndex = 0,
      Blas = SubMesh.m_blas subMesh,
      Transform = m_transform (m_mesh subMesh),
      NonUniformScale = m_nonUniformScale (m_mesh subMesh),
      Transparent = float_less (GetA (m_irradianceColor subMesh)) (Finite 1)\<rparr>
     # tlasInstanceLoop (instanceIndex + 1) subMeshes"

definition buildTlasDescriptor :: "SubMesh list \<Rightarrow> RayTracingTlasDescriptor" where
  "buildTlasDescriptor subMeshes = \<lparr>GetInstances = tlasInstanceLoop 0 subMeshes\<rparr>"


datatype ScopeAttachmentAccess = Read | Write | ReadWrite

datatype AttachmentLoadAction = Load | Clear | DontCare














subsection \<open>A scene to run the pass on\<close>

text \<open>
  Three BLAS instances: a static mesh that has not been built, a mesh without sub-meshes
  that has not been built, and a skinned mesh that has been built. The stored revision
  of \<open>examplePass\<close> is behind the revision of \<open>exampleFeatureProcessor\<close>.
\<close>

definition exampleMesh :: Mesh where
  "exampleMesh =
     \<lparr>m_instanceMask = 1,
      m_transform = \<lparr>m_rotation = (Finite 0, Finite 0, Finite 0, Finite 1), m_scale = Finite 1,
                     m_translation = (Finite 2, Finite 0, Finite 0)\<rparr>,
      m_nonUniformScale = (Finite 1, Finite 1, Finite 1)\<rparr>"

definition opaqueSubMesh :: SubMesh where
  "opaqueSubMesh =
     \<lparr>m_mesh = exampleMesh, m_blas = 10,
      m_irradianceColor = \<lparr>GetR = Finite 1, GetG = Finite 1, GetB = Finite 1, GetA = Finite 1\<rparr>\<rparr>"

definition glassSubMesh :: SubMesh where
  "glassSubMesh =
     \<lparr>m_mesh = exampleMesh\<lparr>m_instanceMask := 2\<rparr>, m_blas = 11,
      m_irradianceColor = \<lparr>GetR = Finite 1, GetG = Finite 1, GetB = Finite 1, GetA = Finite (1 / 2)\<rparr>\<rparr>"

definition skinSubMesh :: SubMesh where
  "skinSubMesh =
     \<lparr>m_mesh = exampleMesh, m_blas = 20,
      m_irradianceColor = \<lparr>GetR = Finite 1, GetG = Finite 0, GetB = Finite 0, GetA = Finite 1\<rparr>\<rparr>"

definition hairSubMesh :: SubMesh where
  "hairSubMesh =
     \<lparr>m_mesh = exampleMesh, m_blas = 21,
      m_irradianceColor = \<lparr>GetR = Finite 0, GetG = Finite 0, GetB = Finite 0, GetA = Finite (3 / 4)\<rparr>\<rparr>"

definition exampleTlas :: RayTracingTlas where
  "exampleTlas = \<lparr>GetTlasBuffer = Some \<lparr>m_buffer = 7, m_byteCount = 128\<rparr>\<rparr>"

definition staticInstance :: "AssetId \<times> BlasInstance" where
  "staticInstance =
     (\<lparr>m_guid = \<lparr>m_data = 1, GetHash = 5\<rparr>, m_subId = 0\<rparr>,
      \<lparr>m_subMeshes = [\<lparr>m_blas = 10\<rparr>, \<lparr>m_blas = 11\<rparr>], m_blasBuilt = False, m_isSkinnedMesh = False\<rparr>)"

definition emptyInstance :: "AssetId \<times> BlasInstance" where
  "emptyInstance =
     (\<lparr>m_guid = \<lparr>m_data = 3, GetHash = 9\<rparr>, m_subId = 0\<rparr>,
      \<lparr>m_subMeshes = [], m_blasBuilt = False, m_isSkinnedMesh = False\<rparr>)"

definition skinnedInstance :: "AssetId \<times> BlasInstance" where
  "skinnedInstance =
     (\<lparr>m_guid = \<lparr>m_data = 2, GetHash = 7\<rparr>, m_subId = 0\<rparr>,
      \<lparr>m_subMeshes = [\<lparr>m_blas = 20\<rparr>, \<lparr>m_blas = 21\<rparr>], m_blasBuilt = True, m_isSkinnedMesh = True\<rparr>)"

definition exampleFeatureProcessor :: RayTracingFeatureProcessor where
  "exampleFeatureProcessor =
     \<lparr>GetRevision = 1,
      GetSubMeshes = [opaqueSubMesh, glassSubMesh, skinSubMesh, hairSubMesh],
      GetSubMeshCount = 4,
      GetBlasInstances = [staticInstance, emptyInstance, skinnedInstance],
      GetSkinnedMeshCount = 1,
      GetTlas = exampleTlas,
      GetTlasAttachmentId = ''RayTracingTlas''\<rparr>"

definition examplePass :: RayTracingAccelerationStructurePass where
  "examplePass = \<lparr>m_rayTracingRevision = 0, m_frameCount = 0\<rparr>"

text \<open>The same scene once the pass has caught up and nothing is skinned.\<close>

definition settledFeatureProcessor :: RayTracingFeatureProcessor where
  "settledFeatureProcessor = exampleFeatureProcessor\<lparr>GetRevision := 0, GetSkinnedMeshCount := 0\<rparr>"

text \<open>A scene whose revision has changed, whose TLAS has no buffer.\<close>

definition unallocatedFeatureProcessor :: RayTracingFeatureProcessor where
  "unallocatedFeatureProcessor =
     exampleFeatureProcessor\<lparr>GetTlas := \<lparr>GetTlasBuffer = None\<rparr>\<rparr>"

text \<open>A scene whose revision has changed, with a TLAS buffer and no sub-mesh.\<close>

definition clearedFeatureProcessor :: RayTracingFeatureProcessor where
  "clearedFeatureProcessor =
     exampleFeatureProcessor\<lparr>GetSubMeshes := [], GetSubMeshCount := 0, GetBlasInstances := []\<rparr>"










lemmas example_defs =
  exampleFeatureProcessor_def examplePass_def exampleTlas_def staticInstance_def
  skinnedInstance_def emptyInstance_def settledFeatureProcessor_def
  unallocatedFeatureProcessor_def clearedFeatureProcessor_def


section \<open>Properties of BuildCommandList\<close>

subsection \<open>The loops\<close>

lemma submeshLoop_not_built:
  "submeshLoop interval False skinned guid fc i ss =
   map (\<lambda>s. BuildBottomLevelAccelerationStructure (SubMeshBlasInstance.m_blas s)) ss"
  by (induction ss arbitrary: i) (simp_all add: submeshCommand_def)

lemma submeshCommand_is_blas:
  "\<exists>b. submeshCommand interval built skinned guid fc i s = BuildBottomLevelAccelerationStructure b \<or>
       submeshCommand interval built skinned guid fc i s = UpdateBottomLevelAccelerationStructure b"
  by (simp add: submeshCommand_def)

lemma submeshLoop_is_blas:
  "c \<in> set (submeshLoop interval built skinned guid fc i ss) \<Longrightarrow>
   \<exists>b. c = BuildBottomLevelAccelerationStructure b \<or> c = UpdateBottomLevelAccelerationStructure b"
proof (induction ss arbitrary: i)
  case Nil
  then show ?case by simp
next
  case (Cons s ss)
  then show ?case using submeshCommand_is_blas [of interval built skinned guid fc i s] by auto
qed

lemma processBlasInstance_is_blas:
  "c \<in> set (snd (processBlasInstance interval fc x)) \<Longrightarrow>
   \<exists>b. c = BuildBottomLevelAccelerationStructure b \<or> c = UpdateBottomLevelAccelerationStructure b"
  by (auto simp add: processBlasInstance_def Let_def dest: submeshLoop_is_blas split: if_splits)

lemma blasInstanceLoop_fst:
  "fst (blasInstanceLoop interval fc xs) = map (\<lambda>x. fst (processBlasInstance interval fc x)) xs"
  by (induction xs) (simp_all add: case_prod_beta)

lemma blasInstanceLoop_snd:
  "snd (blasInstanceLoop interval fc xs) = concat (map (\<lambda>x. snd (processBlasInstance interval fc x)) xs)"
  by (induction xs) (simp_all add: case_prod_beta)

subsection \<open>The frames of BuildCommandList\<close>

text \<open>
  A frame that passes every guard: the revision is stored, every BLAS instance goes
  through the loop body in order, the TLAS build is recorded last and the frame is
  counted.
\<close>

lemma BuildCommandList_builds:
  assumes "GetTlasBuffer (GetTlas fp) \<noteq> None"
    and "GetRevision fp \<noteq> m_rayTracingRevision pass \<or> GetSkinnedMeshCount fp \<noteq> 0"
    and "GetSubMeshCount fp \<noteq> 0"
  shows "BuildCommandList interval pass (Some fp) =
    (\<lparr>m_rayTracingRevision = GetRevision fp, m_frameCount = m_frameCount pass + 1\<rparr>,
     Some (fp\<lparr>GetBlasInstances :=
       map (\<lambda>x. fst (processBlasInstance interval (m_frameCount pass) x)) (GetBlasInstances fp)\<rparr>),
     concat (map (\<lambda>x. snd (processBlasInstance interval (m_frameCount pass) x)) (GetBlasInstances fp))
       @ [BuildTopLevelAccelerationStructure (GetTlas fp)])"
  using assms
  by (auto simp add: BuildCommandList_def Let_def case_prod_beta blasInstanceLoop_fst blasInstanceLoop_snd)

text \<open>
  Every frame is of one of three kinds: it returns at a guard before the revision is
  stored, it returns after the revision is stored because there is no sub-mesh, or it
  passes every guard.
\<close>

lemma BuildCommandList_cases:
  "BuildCommandList interval pass fpo = (pass, fpo, []) \<or>
   (\<exists>fp. fpo = Some fp \<and>
      BuildCommandList interval pass fpo = (pass\<lparr>m_rayTracingRevision := GetRevision fp\<rparr>, fpo, [])) \<or>
   (\<exists>fp. fpo = Some fp \<and> GetTlasBuffer (GetTlas fp) \<noteq> None \<and> GetSubMeshCount fp \<noteq> 0 \<and>
      (GetRevision fp \<noteq> m_rayTracingRevision pass \<or> GetSkinnedMeshCount fp \<noteq> 0))"
  by (cases fpo) (auto simp add: BuildCommandList_def Let_def case_prod_beta)

text \<open>The example frame, evaluated.\<close>

lemma example_frame:
  "BuildCommandList 8 examplePass (Some exampleFeatureProcessor) =
     (\<lparr>m_rayTracingRevision = 1, m_frameCount = 1\<rparr>,
      Some (exampleFeatureProcessor\<lparr>GetBlasInstances :=
        [(fst staticInstance, (snd staticInstance)\<lparr>m_blasBuilt := True\<rparr>),
         (fst emptyInstance, (snd emptyInstance)\<lparr>m_blasBuilt := True\<rparr>),
         skinnedInstance]\<rparr>),
      [BuildBottomLevelAccelerationStructure 10, BuildBottomLevelAccelerationStructure 11,
       UpdateBottomLevelAccelerationStructure 20, BuildBottomLevelAccelerationStructure 21,
       BuildTopLevelAccelerationStructure exampleTlas])"
  by (simp add: BuildCommandList_def processBlasInstance_def submeshCommand_def Let_def example_defs)

lemma cleared_frame:
  "BuildCommandList 8 examplePass (Some clearedFeatureProcessor) =
     (\<lparr>m_rayTracingRevision = 1, m_frameCount = 0\<rparr>, Some clearedFeatureProcessor, [])"
  by (simp add: BuildCommandList_def example_defs)

subsection \<open>Frames that return early\<close>

text \<open>
  C2. When the observed revision equals the stored one and there is no skinned mesh,
  \<^verbatim>\<open>BuildCommandList\<close> records no command and changes nothing: the pass (stored revision
  and frame counter) and the feature processor (with every BLAS instance's built flag)
  are returned as they were.
\<close>

theorem BuildCommandList_up_to_date:
  assumes "GetRevision fp = m_rayTracingRevision pass"
    and "GetSkinnedMeshCount fp = 0"
  shows "BuildCommandList interval pass (Some fp) = (pass, Some fp, [])"
  using assms by (simp add: BuildCommandList_def)

theorem BuildCommandList_up_to_date_witness:
  "GetRevision settledFeatureProcessor = m_rayTracingRevision examplePass \<and>
   GetSkinnedMeshCount settledFeatureProcessor = 0 \<and>
   BuildCommandList 8 examplePass (Some settledFeatureProcessor) =
     (examplePass, Some settledFeatureProcessor, [])"
proof -
  have r: "GetRevision settledFeatureProcessor = m_rayTracingRevision examplePass"
    by (simp add: example_defs)
  have s: "GetSkinnedMeshCount settledFeatureProcessor = 0"
    by (simp add: example_defs)
  from BuildCommandList_up_to_date [OF r s, of 8] r s show ?thesis by simp
qed

subsection \<open>The stored revision\<close>

text \<open>
  C1, as the claim states it, fails: a frame whose TLAS has no buffer returns at the
  second guard, before the revision is stored. Here the observed revision is 1, the
  stored revision is 0, and it is still 0 after the call.
\<close>

theorem BuildCommandList_revision_counterexample:
  "GetRevision unallocatedFeatureProcessor \<noteq> m_rayTracingRevision examplePass \<and>
   m_rayTracingRevision (fst (BuildCommandList 8 examplePass (Some unallocatedFeatureProcessor)))
     \<noteq> GetRevision unallocatedFeatureProcessor"
  by (simp add: BuildCommandList_def example_defs)

text \<open>
  C1, amended. When the TLAS has a buffer and the observed revision differs from the
  stored one, the stored revision equals the observed revision after
  \<^verbatim>\<open>BuildCommandList\<close>, whatever the sub-mesh count, zero included.
\<close>

theorem BuildCommandList_commits_revision:
  assumes "GetTlasBuffer (GetTlas fp) \<noteq> None"
    and "GetRevision fp \<noteq> m_rayTracingRevision pass"
  shows "m_rayTracingRevision (fst (BuildCommandList interval pass (Some fp))) = GetRevision fp"
  using assms by (simp add: BuildCommandList_def Let_def case_prod_beta)

theorem BuildCommandList_commits_revision_witness:
  "GetTlasBuffer (GetTlas clearedFeatureProcessor) \<noteq> None \<and>
   GetRevision clearedFeatureProcessor \<noteq> m_rayTracingRevision examplePass \<and>
   GetSubMeshCount clearedFeatureProcessor = 0 \<and>
   m_rayTracingRevision (fst (BuildCommandList 8 examplePass (Some clearedFeatureProcessor))) = 1"
proof -
  have b: "GetTlasBuffer (GetTlas clearedFeatureProcessor) \<noteq> None"
    by (simp add: example_defs)
  have r: "GetRevision clearedFeatureProcessor \<noteq> m_rayTracingRevision examplePass"
    by (simp add: example_defs)
  have "GetRevision clearedFeatureProcessor = 1" "GetSubMeshCount clearedFeatureProcessor = 0"
    by (simp_all add: example_defs)
  with BuildCommandList_commits_revision [OF b r, of 8] b r show ?thesis by simp
qed

subsection \<open>The order of the commands and the frame counter\<close>

text \<open>
  C7. In a frame where \<^verbatim>\<open>BuildCommandList\<close> records a command, the commands are BLAS
  builds and updates followed by one TLAS build, which is the last command, and the
  frame counter is one more than before. In a frame where it records no command, and so
  does not reach the TLAS build, the frame counter is unchanged.
\<close>

theorem BuildCommandList_emission_order:
  assumes "BuildCommandList interval pass fpo = (pass', fpo', commands)"
  shows "(commands \<noteq> [] \<longrightarrow>
           (\<exists>fp blasCommands. fpo = Some fp \<and>
              commands = blasCommands @ [BuildTopLevelAccelerationStructure (GetTlas fp)] \<and>
              (\<forall>c \<in> set blasCommands. \<exists>b. c = BuildBottomLevelAccelerationStructure b \<or>
                 c = UpdateBottomLevelAccelerationStructure b)) \<and>
           m_frameCount pass' = m_frameCount pass + 1) \<and>
         (commands = [] \<longrightarrow> m_frameCount pass' = m_frameCount pass)"
proof -
  consider
    (early) "BuildCommandList interval pass fpo = (pass, fpo, [])"
  | (empty) fp where "fpo = Some fp"
      "BuildCommandList interval pass fpo = (pass\<lparr>m_rayTracingRevision := GetRevision fp\<rparr>, fpo, [])"
  | (build) fp where "fpo = Some fp" "GetTlasBuffer (GetTlas fp) \<noteq> None" "GetSubMeshCount fp \<noteq> 0"
      "GetRevision fp \<noteq> m_rayTracingRevision pass \<or> GetSkinnedMeshCount fp \<noteq> 0"
    using BuildCommandList_cases [of interval pass fpo] by blast
  then show ?thesis
  proof cases
    case early
    with assms show ?thesis by simp
  next
    case empty
    with assms show ?thesis by auto
  next
    case build
    let ?bl = "concat (map (\<lambda>x. snd (processBlasInstance interval (m_frameCount pass) x))
                 (GetBlasInstances fp))"
    from BuildCommandList_builds [OF build(2) build(4) build(3), of interval] assms build(1)
    have c: "commands = ?bl @ [BuildTopLevelAccelerationStructure (GetTlas fp)]"
      and f: "m_frameCount pass' = m_frameCount pass + 1"
      by auto
    have "\<forall>c \<in> set ?bl. \<exists>b. c = BuildBottomLevelAccelerationStructure b \<or>
                 c = UpdateBottomLevelAccelerationStructure b"
      by (auto dest: processBlasInstance_is_blas)
    with c f build(1) show ?thesis by blast
  qed
qed

theorem BuildCommandList_emission_order_witness:
  "BuildCommandList 8 examplePass (Some exampleFeatureProcessor) =
     (\<lparr>m_rayTracingRevision = 1, m_frameCount = 1\<rparr>,
      Some (exampleFeatureProcessor\<lparr>GetBlasInstances :=
        [(fst staticInstance, (snd staticInstance)\<lparr>m_blasBuilt := True\<rparr>),
         (fst emptyInstance, (snd emptyInstance)\<lparr>m_blasBuilt := True\<rparr>),
         skinnedInstance]\<rparr>),
      [BuildBottomLevelAccelerationStructure 10, BuildBottomLevelAccelerationStructure 11,
       UpdateBottomLevelAccelerationStructure 20, BuildBottomLevelAccelerationStructure 21,
       BuildTopLevelAccelerationStructure exampleTlas]) \<and>
   (\<exists>blasCommands.
      [BuildBottomLevelAccelerationStructure 10, BuildBottomLevelAccelerationStructure 11,
       UpdateBottomLevelAccelerationStructure 20, BuildBottomLevelAccelerationStructure 21,
       BuildTopLevelAccelerationStructure exampleTlas] =
      blasCommands @ [BuildTopLevelAccelerationStructure exampleTlas]) \<and>
   m_frameCount \<lparr>m_rayTracingRevision = 1, m_frameCount = 1\<rparr> = m_frameCount examplePass + 1 \<and>
   BuildCommandList 8 examplePass (Some clearedFeatureProcessor) =
     (\<lparr>m_rayTracingRevision = 1, m_frameCount = 0\<rparr>, Some clearedFeatureProcessor, []) \<and>
   m_frameCount \<lparr>m_rayTracingRevision = 1, m_frameCount = 0\<rparr> = m_frameCount examplePass"
proof -
  note h = example_frame
  from BuildCommandList_emission_order [OF h]
  have "\<exists>fp blasCommands. Some exampleFeatureProcessor = Some fp \<and>
      [BuildBottomLevelAccelerationStructure 10, BuildBottomLevelAccelerationStructure 11,
       UpdateBottomLevelAccelerationStructure 20, BuildBottomLevelAccelerationStructure 21,
       BuildTopLevelAccelerationStructure exampleTlas] =
      blasCommands @ [BuildTopLevelAccelerationStructure (GetTlas fp)]"
    and f: "m_frameCount \<lparr>m_rayTracingRevision = 1, m_frameCount = 1\<rparr> = m_frameCount examplePass + 1"
    by auto
  then have "\<exists>blasCommands.
      [BuildBottomLevelAccelerationStructure 10, BuildBottomLevelAccelerationStructure 11,
       UpdateBottomLevelAccelerationStructure 20, BuildBottomLevelAccelerationStructure 21,
       BuildTopLevelAccelerationStructure exampleTlas] =
      blasCommands @ [BuildTopLevelAccelerationStructure exampleTlas]"
    by (auto simp add: exampleFeatureProcessor_def)
  moreover from BuildCommandList_emission_order [OF cleared_frame]
  have "m_frameCount \<lparr>m_rayTracingRevision = 1, m_frameCount = 0\<rparr> = m_frameCount examplePass"
    by simp
  ultimately show ?thesis using h f cleared_frame by simp
qed

subsection \<open>The built flag\<close>

lemma processBlasInstance_not_built:
  "m_blasBuilt b = False \<Longrightarrow>
   processBlasInstance interval frameCount (k, b) =
     ((k, b\<lparr>m_blasBuilt := True\<rparr>),
      map (\<lambda>s. BuildBottomLevelAccelerationStructure (SubMeshBlasInstance.m_blas s)) (m_subMeshes b))"
  by (simp add: processBlasInstance_def submeshLoop_not_built)

lemma processBlasInstance_static_built:
  "m_blasBuilt b \<Longrightarrow> m_isSkinnedMesh b = False \<Longrightarrow>
   processBlasInstance interval frameCount (k, b) = ((k, b), [])"
  by (simp add: processBlasInstance_def)

lemma processBlasInstance_entry:
  "fst (processBlasInstance interval frameCount x) = (fst x, (snd x)\<lparr>m_blasBuilt := True\<rparr>)"
  by (simp add: processBlasInstance_def Let_def prod_eq_iff)

lemma BuildCommandList_entries:
  "list_all2 (\<lambda>x y. y = x \<or> y = (fst x, (snd x)\<lparr>m_blasBuilt := True\<rparr>))
     (GetBlasInstances fp)
     (case fst (snd (BuildCommandList interval pass (Some fp))) of
        None \<Rightarrow> [] | Some fp' \<Rightarrow> GetBlasInstances fp')"
  by (simp add: BuildCommandList_def Let_def case_prod_beta blasInstanceLoop_fst
        list_all2_conv_all_nth processBlasInstance_entry list.rel_refl)

text \<open>
  C4. A BLAS instance that has not been built goes through the loop body once: the body
  sets the flag and records a build for every sub-mesh, never an update, whether or not
  the mesh is skinned. The body leaves an instance that has been built as it is, and
  records nothing for it when it is not skinned. Over a whole call, every entry of the
  map is left as it was or goes from not built to built, so no entry is built twice; and
  a call that passes the guards leaves every entry built.
\<close>

theorem blasInstance_built_once:
  "(m_blasBuilt b = False \<longrightarrow>
      processBlasInstance interval frameCount (k, b) =
        ((k, b\<lparr>m_blasBuilt := True\<rparr>),
         map (\<lambda>s. BuildBottomLevelAccelerationStructure (SubMeshBlasInstance.m_blas s)) (m_subMeshes b))) \<and>
   (m_blasBuilt b \<longrightarrow> fst (processBlasInstance interval frameCount (k, b)) = (k, b)) \<and>
   (m_blasBuilt b \<longrightarrow> m_isSkinnedMesh b = False \<longrightarrow>
      processBlasInstance interval frameCount (k, b) = ((k, b), [])) \<and>
   list_all2
     (\<lambda>x y. y = x \<or> (m_blasBuilt (snd x) = False \<and> y = (fst x, (snd x)\<lparr>m_blasBuilt := True\<rparr>)))
     (GetBlasInstances fp)
     (case fst (snd (BuildCommandList interval pass (Some fp))) of
        None \<Rightarrow> [] | Some fp' \<Rightarrow> GetBlasInstances fp') \<and>
   (GetTlasBuffer (GetTlas fp) \<noteq> None \<longrightarrow>
    GetRevision fp \<noteq> m_rayTracingRevision pass \<or> GetSkinnedMeshCount fp \<noteq> 0 \<longrightarrow>
    GetSubMeshCount fp \<noteq> 0 \<longrightarrow>
      fst (snd (BuildCommandList interval pass (Some fp))) =
        Some (fp\<lparr>GetBlasInstances :=
          map (\<lambda>x. (fst x, (snd x)\<lparr>m_blasBuilt := True\<rparr>)) (GetBlasInstances fp)\<rparr>) \<and>
      snd (snd (BuildCommandList interval pass (Some fp))) =
        concat (map (\<lambda>x. snd (processBlasInstance interval (m_frameCount pass) x)) (GetBlasInstances fp))
          @ [BuildTopLevelAccelerationStructure (GetTlas fp)])"
proof -
  have built: "b\<lparr>m_blasBuilt := True\<rparr> = b" if "m_blasBuilt b" for b :: BlasInstance
    using that by simp
  have 2: "m_blasBuilt b \<longrightarrow> fst (processBlasInstance interval frameCount (k, b)) = (k, b)"
    by (simp add: processBlasInstance_entry built)
  have "(y = x \<or> y = (fst x, (snd x)\<lparr>m_blasBuilt := True\<rparr>)) =
        (y = x \<or> (m_blasBuilt (snd x) = False \<and> y = (fst x, (snd x)\<lparr>m_blasBuilt := True\<rparr>)))"
    for x y :: "AssetId \<times> BlasInstance"
    using built [of "snd x"] by (cases "m_blasBuilt (snd x)") (auto simp add: prod_eq_iff)
  with BuildCommandList_entries [of fp interval pass]
  have 4: "list_all2
     (\<lambda>x y. y = x \<or> (m_blasBuilt (snd x) = False \<and> y = (fst x, (snd x)\<lparr>m_blasBuilt := True\<rparr>)))
     (GetBlasInstances fp)
     (case fst (snd (BuildCommandList interval pass (Some fp))) of
        None \<Rightarrow> [] | Some fp' \<Rightarrow> GetBlasInstances fp')"
    by simp
  have 5: "fst (snd (BuildCommandList interval pass (Some fp))) =
        Some (fp\<lparr>GetBlasInstances :=
          map (\<lambda>x. (fst x, (snd x)\<lparr>m_blasBuilt := True\<rparr>)) (GetBlasInstances fp)\<rparr>) \<and>
      snd (snd (BuildCommandList interval pass (Some fp))) =
        concat (map (\<lambda>x. snd (processBlasInstance interval (m_frameCount pass) x)) (GetBlasInstances fp))
          @ [BuildTopLevelAccelerationStructure (GetTlas fp)]"
    if "GetTlasBuffer (GetTlas fp) \<noteq> None"
      and "GetRevision fp \<noteq> m_rayTracingRevision pass \<or> GetSkinnedMeshCount fp \<noteq> 0"
      and "GetSubMeshCount fp \<noteq> 0"
    using BuildCommandList_builds [OF that, of interval]
    by (simp add: processBlasInstance_entry)
  from processBlasInstance_not_built [of b interval frameCount k] 2
    processBlasInstance_static_built [of b interval frameCount k] 4 5
  show ?thesis by blast
qed

theorem blasInstance_built_once_witness:
  "m_blasBuilt (snd staticInstance) = False \<and>
   processBlasInstance 8 0 staticInstance =
     ((fst staticInstance, (snd staticInstance)\<lparr>m_blasBuilt := True\<rparr>),
      [BuildBottomLevelAccelerationStructure 10, BuildBottomLevelAccelerationStructure 11]) \<and>
   m_blasBuilt ((snd staticInstance)\<lparr>m_blasBuilt := True\<rparr>) \<and>
   m_isSkinnedMesh ((snd staticInstance)\<lparr>m_blasBuilt := True\<rparr>) = False \<and>
   processBlasInstance 8 1 (fst staticInstance, (snd staticInstance)\<lparr>m_blasBuilt := True\<rparr>) =
     ((fst staticInstance, (snd staticInstance)\<lparr>m_blasBuilt := True\<rparr>), []) \<and>
   GetTlasBuffer (GetTlas exampleFeatureProcessor) \<noteq> None \<and>
   GetRevision exampleFeatureProcessor \<noteq> m_rayTracingRevision examplePass \<and>
   GetSubMeshCount exampleFeatureProcessor \<noteq> 0 \<and>
   fst (snd (BuildCommandList 8 examplePass (Some exampleFeatureProcessor))) =
     Some (exampleFeatureProcessor\<lparr>GetBlasInstances :=
        [(fst staticInstance, (snd staticInstance)\<lparr>m_blasBuilt := True\<rparr>),
         (fst emptyInstance, (snd emptyInstance)\<lparr>m_blasBuilt := True\<rparr>),
         skinnedInstance]\<rparr>)"
proof -
  have n: "m_blasBuilt (snd staticInstance) = False"
    by (simp add: staticInstance_def)
  have b: "m_blasBuilt ((snd staticInstance)\<lparr>m_blasBuilt := True\<rparr>)"
    and s: "m_isSkinnedMesh ((snd staticInstance)\<lparr>m_blasBuilt := True\<rparr>) = False"
    by (simp_all add: staticInstance_def)
  have g: "GetTlasBuffer (GetTlas exampleFeatureProcessor) \<noteq> None"
    "GetRevision exampleFeatureProcessor \<noteq> m_rayTracingRevision examplePass"
    "GetSubMeshCount exampleFeatureProcessor \<noteq> 0"
    by (simp_all add: example_defs)
  from blasInstance_built_once
    [of "snd staticInstance" 8 0 "fst staticInstance" exampleFeatureProcessor examplePass] n g
  have 1: "processBlasInstance 8 0 staticInstance =
     ((fst staticInstance, (snd staticInstance)\<lparr>m_blasBuilt := True\<rparr>),
      [BuildBottomLevelAccelerationStructure 10, BuildBottomLevelAccelerationStructure 11])"
    and 5: "fst (snd (BuildCommandList 8 examplePass (Some exampleFeatureProcessor))) =
     Some (exampleFeatureProcessor\<lparr>GetBlasInstances :=
        [(fst staticInstance, (snd staticInstance)\<lparr>m_blasBuilt := True\<rparr>),
         (fst emptyInstance, (snd emptyInstance)\<lparr>m_blasBuilt := True\<rparr>),
         skinnedInstance]\<rparr>)"
    by (simp_all add: example_defs)
  from blasInstance_built_once
    [of "(snd staticInstance)\<lparr>m_blasBuilt := True\<rparr>" 8 1 "fst staticInstance"
       exampleFeatureProcessor examplePass] b s
  have 3: "processBlasInstance 8 1 (fst staticInstance, (snd staticInstance)\<lparr>m_blasBuilt := True\<rparr>) =
     ((fst staticInstance, (snd staticInstance)\<lparr>m_blasBuilt := True\<rparr>), [])"
    by simp
  from n 1 b s 3 g 5 show ?thesis by simp
qed

text \<open>
  C10. For a BLAS instance without sub-meshes that has not been built, the loop body
  records no command and sets the built flag; the body then records nothing and changes
  nothing for it in any later frame when the mesh is not skinned. In a call that passes
  the guards, the commands are those of the same call without the instance, and the
  instance is built afterwards.
\<close>

theorem empty_blasInstance_built:
  assumes "m_subMeshes b = []" and "m_blasBuilt b = False"
  shows "processBlasInstance interval frameCount (k, b) = ((k, b\<lparr>m_blasBuilt := True\<rparr>), []) \<and>
     (m_isSkinnedMesh b = False \<longrightarrow>
        processBlasInstance interval frameCount' (k, b\<lparr>m_blasBuilt := True\<rparr>) =
          ((k, b\<lparr>m_blasBuilt := True\<rparr>), [])) \<and>
     (GetTlasBuffer (GetTlas fp) \<noteq> None \<longrightarrow>
      GetRevision fp \<noteq> m_rayTracingRevision pass \<or> GetSkinnedMeshCount fp \<noteq> 0 \<longrightarrow>
      GetSubMeshCount fp \<noteq> 0 \<longrightarrow>
      GetBlasInstances fp = before @ (k, b) # after \<longrightarrow>
        snd (snd (BuildCommandList interval pass (Some fp))) =
          snd (snd (BuildCommandList interval pass (Some (fp\<lparr>GetBlasInstances := before @ after\<rparr>)))) \<and>
        (\<exists>fp'. fst (snd (BuildCommandList interval pass (Some fp))) = Some fp' \<and>
           GetBlasInstances fp' ! length before = (k, b\<lparr>m_blasBuilt := True\<rparr>)))"
proof -
  from assms have 1: "processBlasInstance interval frameCount (k, b) = ((k, b\<lparr>m_blasBuilt := True\<rparr>), [])"
    for frameCount
    by (simp add: processBlasInstance_def)
  have 2: "m_isSkinnedMesh b = False \<longrightarrow>
        processBlasInstance interval frameCount' (k, b\<lparr>m_blasBuilt := True\<rparr>) =
          ((k, b\<lparr>m_blasBuilt := True\<rparr>), [])"
    by (simp add: processBlasInstance_def)
  have 3: "snd (snd (BuildCommandList interval pass (Some fp))) =
          snd (snd (BuildCommandList interval pass (Some (fp\<lparr>GetBlasInstances := before @ after\<rparr>)))) \<and>
        (\<exists>fp'. fst (snd (BuildCommandList interval pass (Some fp))) = Some fp' \<and>
           GetBlasInstances fp' ! length before = (k, b\<lparr>m_blasBuilt := True\<rparr>))"
    if g: "GetTlasBuffer (GetTlas fp) \<noteq> None"
      "GetRevision fp \<noteq> m_rayTracingRevision pass \<or> GetSkinnedMeshCount fp \<noteq> 0"
      "GetSubMeshCount fp \<noteq> 0"
      and x: "GetBlasInstances fp = before @ (k, b) # after"
  proof -
    let ?fp = "fp\<lparr>GetBlasInstances := before @ after\<rparr>"
    have g': "GetTlasBuffer (GetTlas ?fp) \<noteq> None"
      "GetRevision ?fp \<noteq> m_rayTracingRevision pass \<or> GetSkinnedMeshCount ?fp \<noteq> 0"
      "GetSubMeshCount ?fp \<noteq> 0"
      using g by simp_all
    show ?thesis
      unfolding BuildCommandList_builds [OF g] BuildCommandList_builds [OF g']
      using x 1 by (simp add: nth_append)
  qed
  from 1 2 3 show ?thesis by blast
qed

theorem empty_blasInstance_built_witness:
  "m_subMeshes (snd emptyInstance) = [] \<and>
   m_blasBuilt (snd emptyInstance) = False \<and>
   processBlasInstance 8 0 (fst emptyInstance, snd emptyInstance) =
     ((fst emptyInstance, (snd emptyInstance)\<lparr>m_blasBuilt := True\<rparr>), []) \<and>
   m_isSkinnedMesh (snd emptyInstance) = False \<and>
   processBlasInstance 8 1 (fst emptyInstance, (snd emptyInstance)\<lparr>m_blasBuilt := True\<rparr>) =
     ((fst emptyInstance, (snd emptyInstance)\<lparr>m_blasBuilt := True\<rparr>), []) \<and>
   GetBlasInstances exampleFeatureProcessor =
     [staticInstance] @ (fst emptyInstance, snd emptyInstance) # [skinnedInstance] \<and>
   snd (snd (BuildCommandList 8 examplePass (Some exampleFeatureProcessor))) =
     snd (snd (BuildCommandList 8 examplePass
       (Some (exampleFeatureProcessor\<lparr>GetBlasInstances := [staticInstance] @ [skinnedInstance]\<rparr>))))"
proof -
  have e: "m_subMeshes (snd emptyInstance) = []"
    and n: "m_blasBuilt (snd emptyInstance) = False"
    and s: "m_isSkinnedMesh (snd emptyInstance) = False"
    by (simp_all add: emptyInstance_def)
  have g: "GetTlasBuffer (GetTlas exampleFeatureProcessor) \<noteq> None"
    "GetRevision exampleFeatureProcessor \<noteq> m_rayTracingRevision examplePass"
    "GetSubMeshCount exampleFeatureProcessor \<noteq> 0"
    and x: "GetBlasInstances exampleFeatureProcessor =
     [staticInstance] @ (fst emptyInstance, snd emptyInstance) # [skinnedInstance]"
    by (simp_all add: example_defs)
  from empty_blasInstance_built [OF e n, of 8 0 "fst emptyInstance" 1 exampleFeatureProcessor
      examplePass "[staticInstance]" "[skinnedInstance]"] s g x
  show ?thesis using e n by simp
qed

subsection \<open>Rebuild or update\<close>

text \<open>
  The key of the decision, read as a natural number: the sum of the hash, the index and
  the frame count, modulo \<open>2 ^ 64\<close>.
\<close>

lemma unat_ucast_frameCount: "unat (ucast (frameCount :: 32 word) :: 64 word) = unat frameCount"
proof -
  have "unat frameCount < 2 ^ 32"
    using unsigned_less [of frameCount, where ?'a = nat] by simp
  then have "unat frameCount < 2 ^ 64"
    by (rule less_le_trans) simp
  then show ?thesis
    by (simp add: unsigned_ucast_eq take_bit_eq_mod)
qed

lemma mod_add_middle: "((a :: nat) + b mod m + c) mod m = (a + b + c) mod m"
proof -
  have "(a + b mod m + c) mod m = ((a + b mod m) mod m + c) mod m"
    by (simp only: mod_add_left_eq)
  also have "(a + b mod m) mod m = (a + b) mod m"
    by (simp only: mod_add_right_eq)
  also have "((a + b) mod m + c) mod m = (a + b + c) mod m"
    by (simp only: mod_add_left_eq)
  finally show ?thesis .
qed

lemma key_unat:
  "unat ((assetGuid :: 64 word) + of_nat submeshIndex + ucast (frameCount :: 32 word)) =
   (unat assetGuid + submeshIndex + unat frameCount) mod 2 ^ 64"
proof -
  have "unat (assetGuid + of_nat submeshIndex + ucast frameCount) =
    (unat assetGuid + unat (of_nat submeshIndex :: 64 word) + unat (ucast frameCount :: 64 word)) mod 2 ^ 64"
    by (simp add: unat_word_ariths mod_simps)
  also have "\<dots> = (unat assetGuid + submeshIndex mod 2 ^ 64 + unat frameCount) mod 2 ^ 64"
    by (simp add: unat_ucast_frameCount unat_of_nat)
  also have "\<dots> = (unat assetGuid + submeshIndex + unat frameCount) mod 2 ^ 64"
    by (rule mod_add_middle)
  finally show ?thesis .
qed

lemma word_mod_zero_iff:
  "((x :: 64 word) mod y = 0) = (unat x mod unat y = 0)"
  by (metis unat_mod unat_eq_0)

lemma one_multiple_in_window:
  fixes c n :: nat
  assumes "0 < n"
  shows "length (filter (\<lambda>j. (c + j) mod n = 0) [0..<n]) = 1"
proof -
  let ?j0 = "(n - c mod n) mod n"
  have r: "c mod n < n"
    using assms by simp
  have j0: "(c + ?j0) mod n = 0"
  proof -
    have "(c + ?j0) mod n = (c mod n + (n - c mod n)) mod n"
      by (simp add: mod_simps)
    also have "c mod n + (n - c mod n) = n"
      using r by linarith
    finally show ?thesis by simp
  qed
  have uniq: "j = ?j0" if "j < n" "(c + j) mod n = 0" for j
  proof -
    from that(2) have "(c mod n + j) mod n = 0"
      by (simp add: mod_simps)
    then have "n dvd c mod n + j"
      by (simp add: dvd_eq_mod_eq_0)
    then obtain k where k: "c mod n + j = n * k" ..
    from r that(1) have "c mod n + j < n * 2"
      by linarith
    with k have "n * k < n * 2"
      by simp
    then have "k < 2"
      by simp
    then consider "k = 0" | "k = 1"
      by (cases k) auto
    then show ?thesis
    proof cases
      case 1
      with k have "c mod n = 0" "j = 0" by simp_all
      then show ?thesis by simp
    next
      case 2
      with k have "j = n - c mod n" by simp
      moreover from that(1) this have "n - c mod n < n" by linarith
      ultimately show ?thesis by simp
    qed
  qed
  have b: "?j0 < n"
    using assms by simp
  have "{j. (c + j) mod n = 0} \<inter> set [0..<n] = {?j0}"
  proof (intro equalityI subsetI)
    fix j
    assume "j \<in> {j. (c + j) mod n = 0} \<inter> set [0..<n]"
    then have "j < n" "(c + j) mod n = 0"
      by simp_all
    then have "j = ?j0"
      by (rule uniq)
    then show "j \<in> {?j0}"
      by (simp only: singletonI)
  next
    fix j
    assume "j \<in> {?j0}"
    then have j: "j = ?j0"
      by (simp only: singleton_iff)
    from j0 b have "?j0 \<in> {j. (c + j) mod n = 0} \<inter> set [0..<n]"
      by (simp only: Int_iff mem_Collect_eq set_upt atLeastLessThan_iff le0 simp_thms)
    with j show "j \<in> {j. (c + j) mod n = 0} \<inter> set [0..<n]"
      by (simp only:)
  qed
  moreover have "length (filter (\<lambda>j. (c + j) mod n = 0) [0..<n]) =
      card ({j. (c + j) mod n = 0} \<inter> set [0..<n])"
    by (rule distinct_length_filter) simp
  ultimately show ?thesis by simp
qed

lemma unat_frameCount_add:
  "unat ((frameCount :: 32 word) + of_nat j) = (unat frameCount + j) mod 2 ^ 32"
proof -
  have "unat (frameCount + of_nat j) = (unat frameCount + unat (of_nat j :: 32 word)) mod 2 ^ 32"
    by (simp add: unat_word_ariths)
  also have "\<dots> = (unat frameCount + j mod 2 ^ 32) mod 2 ^ 32"
    by (simp add: unat_of_nat)
  also have "\<dots> = (unat frameCount + j) mod 2 ^ 32"
    by (simp only: mod_add_right_eq)
  finally show ?thesis .
qed

lemma key_mod_interval:
  fixes n :: nat
  assumes "n dvd 2 ^ 32"
  shows "(unat (assetGuid :: 64 word) + submeshIndex + unat ((frameCount :: 32 word) + of_nat j))
           mod 2 ^ 64 mod n =
         (unat assetGuid + submeshIndex + unat frameCount + j) mod n"
proof -
  have "(2::nat) ^ 32 dvd 2 ^ 64"
    by (rule le_imp_power_dvd) simp
  with assms have d: "n dvd 2 ^ 64"
    by (rule dvd_trans)
  have "(unat assetGuid + submeshIndex + unat (frameCount + of_nat j)) mod 2 ^ 64 mod n =
        (unat assetGuid + submeshIndex + unat (frameCount + of_nat j)) mod n"
    using d by (rule mod_mod_cancel)
  also have "\<dots> = (unat assetGuid + submeshIndex + (unat frameCount + j) mod 2 ^ 32 mod n) mod n"
    by (simp only: unat_frameCount_add mod_add_right_eq)
  also have "(unat frameCount + j) mod 2 ^ 32 mod n = (unat frameCount + j) mod n"
    using assms by (rule mod_mod_cancel)
  also have "(unat assetGuid + submeshIndex + (unat frameCount + j) mod n) mod n =
        (unat assetGuid + submeshIndex + (unat frameCount + j)) mod n"
    by (simp only: mod_add_right_eq)
  finally show ?thesis by (simp add: add.assoc)
qed

lemma submeshLoop_enumerate:
  "submeshLoop interval built skinned guid fc i ss =
   map (\<lambda>(j, s). submeshCommand interval built skinned guid fc j s) (enumerate i ss)"
  by (induction ss arbitrary: i) simp_all

lemma submeshCommand_skinned_built:
  "submeshCommand interval True True guid fc i s =
     (if (guid + of_nat i + ucast fc) mod interval = 0
      then BuildBottomLevelAccelerationStructure (SubMeshBlasInstance.m_blas s)
      else UpdateBottomLevelAccelerationStructure (SubMeshBlasInstance.m_blas s))"
  by (simp add: submeshCommand_def)

text \<open>
  C5. For a skinned BLAS instance that has been built, the command recorded for the
  sub-mesh at index \<open>submeshIndex\<close> is a build when the sum of the hash of the asset's
  guid, the index and the frame count leaves remainder 0 by the interval, and an update
  otherwise: the choice is a function of these four values only. The sum is the 64-bit
  sum of the source; read over the natural numbers it is taken modulo \<open>2 ^ 64\<close>, which
  makes no difference for an interval that divides \<open>2 ^ 64\<close>.
\<close>

theorem skinned_rebuild_decision:
  assumes "m_blasBuilt b" and "m_isSkinnedMesh b" and "interval \<noteq> 0"
  shows "snd (processBlasInstance interval frameCount (k, b)) =
      map (\<lambda>(submeshIndex, s).
             if (GetHash (m_guid k) + of_nat submeshIndex + ucast frameCount) mod interval = 0
             then BuildBottomLevelAccelerationStructure (SubMeshBlasInstance.m_blas s)
             else UpdateBottomLevelAccelerationStructure (SubMeshBlasInstance.m_blas s))
        (enumerate 0 (m_subMeshes b)) \<and>
    (\<forall>submeshIndex.
       ((GetHash (m_guid k) + of_nat submeshIndex + ucast frameCount) mod interval = 0) =
       ((unat (GetHash (m_guid k)) + submeshIndex + unat frameCount) mod 2 ^ 64 mod unat interval = 0)) \<and>
    (unat interval dvd 2 ^ 64 \<longrightarrow>
      (\<forall>submeshIndex.
         ((GetHash (m_guid k) + of_nat submeshIndex + ucast frameCount) mod interval = 0) =
         ((unat (GetHash (m_guid k)) + submeshIndex + unat frameCount) mod unat interval = 0)))"
proof -
  have 1: "snd (processBlasInstance interval frameCount (k, b)) =
      map (\<lambda>(submeshIndex, s).
             if (GetHash (m_guid k) + of_nat submeshIndex + ucast frameCount) mod interval = 0
             then BuildBottomLevelAccelerationStructure (SubMeshBlasInstance.m_blas s)
             else UpdateBottomLevelAccelerationStructure (SubMeshBlasInstance.m_blas s))
        (enumerate 0 (m_subMeshes b))"
  proof -
    from assms(1,2) have "snd (processBlasInstance interval frameCount (k, b)) =
        submeshLoop interval True True (GetHash (m_guid k)) frameCount 0 (m_subMeshes b)"
      by (simp add: processBlasInstance_def)
    then show ?thesis
      by (simp only: submeshLoop_enumerate submeshCommand_skinned_built)
  qed
  have 2: "((GetHash (m_guid k) + of_nat i + ucast frameCount) mod interval = 0) =
       ((unat (GetHash (m_guid k)) + i + unat frameCount) mod 2 ^ 64 mod unat interval = 0)" for i
    by (simp only: word_mod_zero_iff key_unat)
  have 3: "((GetHash (m_guid k) + of_nat i + ucast frameCount) mod interval = 0) =
         ((unat (GetHash (m_guid k)) + i + unat frameCount) mod unat interval = 0)"
    if "unat interval dvd 2 ^ 64" for i
    by (simp only: 2 mod_mod_cancel [OF that])
  show ?thesis
  proof (intro conjI allI impI)
    show "snd (processBlasInstance interval frameCount (k, b)) =
      map (\<lambda>(submeshIndex, s).
             if (GetHash (m_guid k) + of_nat submeshIndex + ucast frameCount) mod interval = 0
             then BuildBottomLevelAccelerationStructure (SubMeshBlasInstance.m_blas s)
             else UpdateBottomLevelAccelerationStructure (SubMeshBlasInstance.m_blas s))
        (enumerate 0 (m_subMeshes b))"
      by (rule 1)
  next
    fix i
    show "((GetHash (m_guid k) + of_nat i + ucast frameCount) mod interval = 0) =
       ((unat (GetHash (m_guid k)) + i + unat frameCount) mod 2 ^ 64 mod unat interval = 0)"
      by (rule 2)
  next
    fix i
    assume "unat interval dvd 2 ^ 64"
    then show "((GetHash (m_guid k) + of_nat i + ucast frameCount) mod interval = 0) =
         ((unat (GetHash (m_guid k)) + i + unat frameCount) mod unat interval = 0)"
      by (rule 3)
  qed
qed

theorem skinned_rebuild_decision_witness:
  "m_blasBuilt (snd skinnedInstance) \<and> m_isSkinnedMesh (snd skinnedInstance) \<and> (8 :: 64 word) \<noteq> 0 \<and>
   snd (processBlasInstance 8 0 (fst skinnedInstance, snd skinnedInstance)) =
     [UpdateBottomLevelAccelerationStructure 20, BuildBottomLevelAccelerationStructure 21] \<and>
   snd (processBlasInstance 8 1 (fst skinnedInstance, snd skinnedInstance)) =
     [BuildBottomLevelAccelerationStructure 20, UpdateBottomLevelAccelerationStructure 21]"
proof -
  have b: "m_blasBuilt (snd skinnedInstance)" and s: "m_isSkinnedMesh (snd skinnedInstance)"
    by (simp_all add: skinnedInstance_def)
  have i: "(8 :: 64 word) \<noteq> 0"
    by simp
  from skinned_rebuild_decision [OF b s i, of 0 "fst skinnedInstance"]
    skinned_rebuild_decision [OF b s i, of 1 "fst skinnedInstance"]
  have "snd (processBlasInstance 8 0 (fst skinnedInstance, snd skinnedInstance)) =
     [UpdateBottomLevelAccelerationStructure 20, BuildBottomLevelAccelerationStructure 21]"
    "snd (processBlasInstance 8 1 (fst skinnedInstance, snd skinnedInstance)) =
     [BuildBottomLevelAccelerationStructure 20, UpdateBottomLevelAccelerationStructure 21]"
    by (simp_all add: skinnedInstance_def enumerate_eq_zip upt_rec)
  with b s i show ?thesis by simp
qed

lemma submeshCommand_build_iff:
  assumes "unat interval dvd 2 ^ 32"
  shows "(submeshCommand interval True True assetGuid (frameCount + of_nat j) submeshIndex s =
          BuildBottomLevelAccelerationStructure (SubMeshBlasInstance.m_blas s)) =
         ((unat assetGuid + submeshIndex + unat frameCount + j) mod unat interval = 0)"
proof -
  have "(submeshCommand interval True True assetGuid (frameCount + of_nat j) submeshIndex s =
          BuildBottomLevelAccelerationStructure (SubMeshBlasInstance.m_blas s)) =
        ((assetGuid + of_nat submeshIndex + ucast (frameCount + of_nat j)) mod interval = 0)"
    by (simp add: submeshCommand_skinned_built)
  also have "\<dots> = ((unat assetGuid + submeshIndex + unat (frameCount + of_nat j)) mod 2 ^ 64
                     mod unat interval = 0)"
    by (simp only: word_mod_zero_iff key_unat)
  also have "\<dots> = ((unat assetGuid + submeshIndex + unat frameCount + j) mod unat interval = 0)"
    by (simp only: key_mod_interval [OF assms])
  finally show ?thesis .
qed

lemma submeshCommand_update_iff:
  "(submeshCommand interval True True assetGuid frameCount submeshIndex s =
      UpdateBottomLevelAccelerationStructure (SubMeshBlasInstance.m_blas s)) =
   (submeshCommand interval True True assetGuid frameCount submeshIndex s \<noteq>
      BuildBottomLevelAccelerationStructure (SubMeshBlasInstance.m_blas s))"
  by (simp add: submeshCommand_skinned_built)

text \<open>
  C6, as the claim states it, fails for an interval that does not divide \<open>2 ^ 64\<close>,
  where the 64-bit sum wraps. With interval 3, hash \<open>2 ^ 64 - 1\<close> and sub-mesh index 0,
  the three consecutive frame counts 0, 1 and 2 select the build twice: the sums are
  \<open>2 ^ 64 - 1\<close>, 0 and 1.
\<close>

theorem rebuild_interval_three_counterexample:
  "submeshCommand 3 True True (- 1) 0 0 \<lparr>m_blas = 20\<rparr> = BuildBottomLevelAccelerationStructure 20 \<and>
   submeshCommand 3 True True (- 1) 1 0 \<lparr>m_blas = 20\<rparr> = BuildBottomLevelAccelerationStructure 20 \<and>
   submeshCommand 3 True True (- 1) 2 0 \<lparr>m_blas = 20\<rparr> = UpdateBottomLevelAccelerationStructure 20"
  by (simp add: submeshCommand_def)

text \<open>
  C6, amended. For a skinned BLAS instance that has been built, one sub-mesh index and a
  nonzero interval that divides \<open>2 ^ 32\<close>, among \<open>interval\<close> consecutive values of the
  frame counter, from any start and wrapping at \<open>2 ^ 32\<close>, exactly one selects the build
  and the other \<open>interval - 1\<close> select the update.
\<close>

theorem rebuild_once_per_interval:
  assumes "interval \<noteq> 0" and "unat interval dvd 2 ^ 32"
  shows "length (filter
           (\<lambda>j. submeshCommand interval True True assetGuid (frameCount + of_nat j) submeshIndex s =
                BuildBottomLevelAccelerationStructure (SubMeshBlasInstance.m_blas s))
           [0..<unat interval]) = 1 \<and>
         length (filter
           (\<lambda>j. submeshCommand interval True True assetGuid (frameCount + of_nat j) submeshIndex s =
                UpdateBottomLevelAccelerationStructure (SubMeshBlasInstance.m_blas s))
           [0..<unat interval]) = unat interval - 1"
proof -
  let ?build = "\<lambda>j. submeshCommand interval True True assetGuid (frameCount + of_nat j) submeshIndex s =
                BuildBottomLevelAccelerationStructure (SubMeshBlasInstance.m_blas s)"
  let ?update = "\<lambda>j. submeshCommand interval True True assetGuid (frameCount + of_nat j) submeshIndex s =
                UpdateBottomLevelAccelerationStructure (SubMeshBlasInstance.m_blas s)"
  from assms(1) have n: "0 < unat interval"
    by (simp add: unat_gt_0)
  have "length (filter ?build [0..<unat interval]) =
        length (filter (\<lambda>j. (unat assetGuid + submeshIndex + unat frameCount + j) mod unat interval = 0)
          [0..<unat interval])"
    by (simp only: submeshCommand_build_iff [OF assms(2)])
  also have "\<dots> = 1"
    using n by (rule one_multiple_in_window)
  finally have b: "length (filter ?build [0..<unat interval]) = 1" .
  have "length (filter ?update [0..<unat interval]) =
        length (filter (\<lambda>j. \<not> ?build j) [0..<unat interval])"
    by (simp only: submeshCommand_update_iff)
  moreover have "length (filter ?build [0..<unat interval]) +
        length (filter (\<lambda>j. \<not> ?build j) [0..<unat interval]) = length [0..<unat interval]"
    by (rule sum_length_filter_compl)
  ultimately have "length (filter ?update [0..<unat interval]) = unat interval - 1"
    using b by simp
  with b show ?thesis by (rule conjI)
qed

theorem rebuild_once_per_interval_witness:
  "(8 :: 64 word) \<noteq> 0 \<and> unat (8 :: 64 word) dvd 2 ^ 32 \<and>
   length (filter
     (\<lambda>j. submeshCommand 8 True True 7 (0 + of_nat j) 0 \<lparr>m_blas = 20\<rparr> =
          BuildBottomLevelAccelerationStructure (SubMeshBlasInstance.m_blas \<lparr>m_blas = 20\<rparr>))
     [0..<unat (8 :: 64 word)]) = 1 \<and>
   length (filter
     (\<lambda>j. submeshCommand 8 True True 7 (0 + of_nat j) 0 \<lparr>m_blas = 20\<rparr> =
          UpdateBottomLevelAccelerationStructure (SubMeshBlasInstance.m_blas \<lparr>m_blas = 20\<rparr>))
     [0..<unat (8 :: 64 word)]) = unat (8 :: 64 word) - 1 \<and>
   submeshCommand 8 True True 7 (0 + of_nat 1) 0 \<lparr>m_blas = 20\<rparr> =
     BuildBottomLevelAccelerationStructure 20"
proof -
  have i: "(8 :: 64 word) \<noteq> 0"
    by simp
  have "(2::nat) ^ 3 dvd 2 ^ 32"
    by (rule le_imp_power_dvd) simp
  then have d: "unat (8 :: 64 word) dvd 2 ^ 32"
    by simp
  have e: "submeshCommand 8 True True 7 (0 + of_nat 1) 0 \<lparr>m_blas = 20\<rparr> =
     BuildBottomLevelAccelerationStructure 20"
    by (simp add: submeshCommand_def)
  from rebuild_once_per_interval [OF i d, of 7 0 0 "\<lparr>m_blas = 20\<rparr>"] i d e
  show ?thesis by (simp only: simp_thms)
qed

section \<open>Properties of SetupFrameGraphDependencies\<close>

subsection \<open>The TLAS descriptor\<close>

lemma tlasInstanceLoop_length: "length (tlasInstanceLoop instanceIndex subMeshes) = length subMeshes"
  by (induction subMeshes arbitrary: instanceIndex) simp_all

lemma tlasInstanceLoop_nth:
  "i < length subMeshes \<Longrightarrow>
   tlasInstanceLoop instanceIndex subMeshes ! i =
     \<lparr>InstanceID = instanceIndex + of_nat i,
      InstanceMask = m_instanceMask (m_mesh (subMeshes ! i)),
      HitGroupIndex = 0,
      Blas = SubMesh.m_blas (subMeshes ! i),
      Transform = m_transform (m_mesh (subMeshes ! i)),
      NonUniformScale = m_nonUniformScale (m_mesh (subMeshes ! i)),
      Transparent = float_less (GetA (m_irradianceColor (subMeshes ! i))) (Finite 1)\<rparr>"
proof (induction subMeshes arbitrary: instanceIndex i)
  case Nil
  then show ?case by simp
next
  case (Cons subMesh subMeshes)
  show ?case
  proof (cases i)
    case 0
    then show ?thesis by simp
  next
    case (Suc j)
    with Cons.prems have "j < length subMeshes" by simp
    from Cons.IH [OF this, of "instanceIndex + 1"] Suc show ?thesis
      by (simp add: add.assoc)
  qed
qed

text \<open>
  C3. The TLAS descriptor built from a sub-mesh vector has one instance per sub-mesh, in
  the order of the vector. The instance at position \<open>i\<close> has the instance ID \<open>i\<close> (as
  a \<^verbatim>\<open>uint32_t\<close>), the instance mask of the sub-mesh, hit group index 0, the BLAS of the
  sub-mesh, its transform and its non-uniform scale as they are, and is transparent
  exactly when the alpha of the irradiance color is less than 1. For a vector of at most
  \<open>2 ^ 32\<close> sub-meshes, which is all a \<^verbatim>\<open>uint32_t\<close> count can describe, the IDs read
  as numbers are \<open>0, 1, \<dots>, count - 1\<close> in order.
\<close>

theorem buildTlasDescriptor_instances:
  "length (GetInstances (buildTlasDescriptor subMeshes)) = length subMeshes \<and>
   (\<forall>i < length subMeshes.
      GetInstances (buildTlasDescriptor subMeshes) ! i =
        \<lparr>InstanceID = of_nat i,
         InstanceMask = m_instanceMask (m_mesh (subMeshes ! i)),
         HitGroupIndex = 0,
         Blas = SubMesh.m_blas (subMeshes ! i),
         Transform = m_transform (m_mesh (subMeshes ! i)),
         NonUniformScale = m_nonUniformScale (m_mesh (subMeshes ! i)),
         Transparent = float_less (GetA (m_irradianceColor (subMeshes ! i))) (Finite 1)\<rparr>) \<and>
   (\<forall>i < length subMeshes. \<forall>opacity.
      GetA (m_irradianceColor (subMeshes ! i)) = Finite opacity \<longrightarrow>
      Transparent (GetInstances (buildTlasDescriptor subMeshes) ! i) = (opacity < 1)) \<and>
   (length subMeshes \<le> 2 ^ 32 \<longrightarrow>
      map (\<lambda>instance. unat (InstanceID instance)) (GetInstances (buildTlasDescriptor subMeshes)) =
        [0..<length subMeshes])"
proof (intro conjI allI impI)
  show "length (GetInstances (buildTlasDescriptor subMeshes)) = length subMeshes"
    by (simp add: buildTlasDescriptor_def tlasInstanceLoop_length)
next
  fix i
  assume "i < length subMeshes"
  then show "GetInstances (buildTlasDescriptor subMeshes) ! i =
        \<lparr>InstanceID = of_nat i,
         InstanceMask = m_instanceMask (m_mesh (subMeshes ! i)),
         HitGroupIndex = 0,
         Blas = SubMesh.m_blas (subMeshes ! i),
         Transform = m_transform (m_mesh (subMeshes ! i)),
         NonUniformScale = m_nonUniformScale (m_mesh (subMeshes ! i)),
         Transparent = float_less (GetA (m_irradianceColor (subMeshes ! i))) (Finite 1)\<rparr>"
    by (simp add: buildTlasDescriptor_def tlasInstanceLoop_nth)
next
  fix i opacity
  assume "i < length subMeshes" "GetA (m_irradianceColor (subMeshes ! i)) = Finite opacity"
  then show "Transparent (GetInstances (buildTlasDescriptor subMeshes) ! i) = (opacity < 1)"
    by (simp add: buildTlasDescriptor_def tlasInstanceLoop_nth)
next
  assume bound: "length subMeshes \<le> 2 ^ 32"
  show "map (\<lambda>instance. unat (InstanceID instance)) (GetInstances (buildTlasDescriptor subMeshes)) =
        [0..<length subMeshes]"
  proof (rule nth_equalityI)
    show "length (map (\<lambda>instance. unat (InstanceID instance))
        (GetInstances (buildTlasDescriptor subMeshes))) = length [0..<length subMeshes]"
      by (simp add: buildTlasDescriptor_def tlasInstanceLoop_length)
  next
    fix i
    assume "i < length (map (\<lambda>instance. unat (InstanceID instance))
        (GetInstances (buildTlasDescriptor subMeshes)))"
    then have i: "i < length subMeshes"
      by (simp add: buildTlasDescriptor_def tlasInstanceLoop_length)
    with bound have "i < 2 ^ 32"
      by simp
    then have "unat (of_nat i :: 32 word) = i"
      by (simp add: unat_of_nat)
    with i show "map (\<lambda>instance. unat (InstanceID instance))
        (GetInstances (buildTlasDescriptor subMeshes)) ! i = [0..<length subMeshes] ! i"
      by (simp add: buildTlasDescriptor_def tlasInstanceLoop_length tlasInstanceLoop_nth)
  qed
qed

theorem buildTlasDescriptor_instances_witness:
  "GetInstances (buildTlasDescriptor [opaqueSubMesh, glassSubMesh]) =
     [\<lparr>InstanceID = 0, InstanceMask = 1, HitGroupIndex = 0, Blas = 10,
       Transform = m_transform exampleMesh, NonUniformScale = m_nonUniformScale exampleMesh,
       Transparent = False\<rparr>,
      \<lparr>InstanceID = 1, InstanceMask = 2, HitGroupIndex = 0, Blas = 11,
       Transform = m_transform exampleMesh, NonUniformScale = m_nonUniformScale exampleMesh,
       Transparent = True\<rparr>] \<and>
   map (\<lambda>instance. unat (InstanceID instance))
     (GetInstances (buildTlasDescriptor [opaqueSubMesh, glassSubMesh])) = [0, 1]"
proof -
  let ?d = "GetInstances (buildTlasDescriptor [opaqueSubMesh, glassSubMesh])"
  note t = buildTlasDescriptor_instances [of "[opaqueSubMesh, glassSubMesh]"]
  from t have l: "length ?d = 2"
    by simp
  from t have 0: "?d ! 0 = \<lparr>InstanceID = 0, InstanceMask = 1, HitGroupIndex = 0, Blas = 10,
       Transform = m_transform exampleMesh, NonUniformScale = m_nonUniformScale exampleMesh,
       Transparent = False\<rparr>"
    by (simp add: opaqueSubMesh_def exampleMesh_def)
  from t have 1: "?d ! 1 = \<lparr>InstanceID = 1, InstanceMask = 2, HitGroupIndex = 0, Blas = 11,
       Transform = m_transform exampleMesh, NonUniformScale = m_nonUniformScale exampleMesh,
       Transparent = True\<rparr>"
    by (simp add: glassSubMesh_def exampleMesh_def)
  from t have m: "map (\<lambda>instance. unat (InstanceID instance)) ?d = [0, 1]"
    by (simp add: upt_rec)
  from l have "?d = [?d ! 0, ?d ! 1]"
    by (intro nth_equalityI) (auto simp add: less_Suc_eq numeral_2_eq_2)
  with 0 1 m show ?thesis by (simp only:)
qed

subsection \<open>The blocks of the function\<close>










subsection \<open>The dependency on the skinning pass\<close>




subsection \<open>The dependency on the TLAS buffer\<close>




end
